theory Spec2Isabelle
  imports Main "HOL-Library.Word"
begin

section \<open>Follower reads and closed timestamps (pkg/kv/kvserver/replica_follower_read.go)\<close>

subsection \<open>hlc.Timestamp\<close>

text \<open>
  Modelled from the spec: package \<^verbatim>\<open>hlc\<close> (the type \<^verbatim>\<open>hlc.Timestamp\<close> and its methods
  \<^verbatim>\<open>LessEq\<close> and \<^verbatim>\<open>Forward\<close>) is not among the files at hand. The spec's data model gives
  \<^verbatim>\<open>Timestamp: (wall_time: int64, logical: int32)\<close>, totally ordered, with
  \<^verbatim>\<open>Forward(other) = max\<close>. Both fields are signed machine integers, so they are
  words read through \<open>sint\<close>, and the order is the lexicographic one.
\<close>

record Timestamp =
  WallTime :: "64 word"
  Logical :: "32 word"

text \<open>The Go zero value \<^verbatim>\<open>hlc.Timestamp{}\<close>.\<close>

definition zeroTimestamp :: Timestamp where
  "zeroTimestamp = \<lparr>WallTime = 0, Logical = 0\<rparr>"

definition LessEq :: "Timestamp \<Rightarrow> Timestamp \<Rightarrow> bool" where
  "LessEq t s =
     (sint (WallTime t) < sint (WallTime s) \<or>
      (WallTime t = WallTime s \<and> sint (Logical t) \<le> sint (Logical s)))"

text \<open>\<^verbatim>\<open>t.Forward(s)\<close> replaces \<open>t\<close> by the later of the two; the model returns the new \<open>t\<close>.\<close>

definition Forward :: "Timestamp \<Rightarrow> Timestamp \<Rightarrow> Timestamp" where
  "Forward t s = (if LessEq t s then s else t)"

subsection \<open>roachpb: descriptors, leases, requests, errors\<close>

text \<open>
  Modelled from the spec: the declarations of package \<^verbatim>\<open>roachpb\<close> are not among the files
  at hand. The records below hold the components the spec's data model lists and the
  fields that \<^verbatim>\<open>canServeFollowerRead\<close> and \<^verbatim>\<open>maxClosed\<close> read. Identifiers and indices
  (node, store, range, epoch, lease applied index) are only passed on, never computed
  with, and are integers here.
\<close>

datatype ReplicaType = VOTER_FULL | VOTER_INCOMING | VOTER_OUTGOING | NON_VOTER | LEARNER

record ReplicaDescriptor =
  NodeID :: int
  StoreID :: int
  GetType :: ReplicaType

datatype LeaseType = LeaseExpiration | LeaseEpoch

text \<open>
  \<^verbatim>\<open>Lease.Type()\<close> is a method of \<^verbatim>\<open>roachpb\<close>; the spec lists the type as a component of
  the lease, so it is a field here, and every theorem below holds whatever the method
  computes from the other fields. \<^verbatim>\<open>Expiration\<close> is a pointer in the source
  (\<^verbatim>\<open>lease.Expiration != nil\<close>), an option here.
\<close>

record Lease =
  Start :: Timestamp
  Expiration :: "Timestamp option"
  Replica :: ReplicaDescriptor
  Epoch :: int
  Type :: LeaseType

record Transaction =
  MaxTimestamp :: Timestamp
  IsLocking :: bool

text \<open>
  \<^verbatim>\<open>ba.IsLocking()\<close> and \<^verbatim>\<open>ba.IsAllTransactional()\<close> are computed by \<^verbatim>\<open>roachpb\<close> from the
  requests of the batch; the model holds their results. \<^verbatim>\<open>ba.Txn\<close> is a pointer.
\<close>

record BatchRequest =
  Timestamp :: Timestamp
  Txn :: "Transaction option"
  IsLocking :: bool
  IsAllTransactional :: bool

record NotLeaseHolderError =
  LeaseHolder :: "ReplicaDescriptor option"
  Lease :: Lease

text \<open>A Go \<^verbatim>\<open>error\<close> value, as \<^verbatim>\<open>GetReplicaDescriptor\<close> returns one.\<close>

datatype GoError = GoError string

datatype ErrorDetail = NotLeaseHolderErrorDetail NotLeaseHolderError | OtherDetail string

text \<open>
  A \<^verbatim>\<open>*roachpb.Error\<close> that is not nil: either an error with a structured detail (or none),
  as the routing layer hands it over, or the result of \<^verbatim>\<open>roachpb.NewError(err)\<close>, which the
  spec calls a generic error wrapping \<open>err\<close>.
\<close>

datatype Error = Error "ErrorDetail option" | NewError GoError

fun GetDetail :: "Error \<Rightarrow> ErrorDetail option" where
  "GetDetail (Error d) = d"
| "GetDetail (NewError e) = None"

text \<open>The type assertion \<^verbatim>\<open>pErr.GetDetail().(*roachpb.NotLeaseHolderError)\<close>: \<open>None\<close> is \<^verbatim>\<open>ok = false\<close>.\<close>

fun asNotLeaseHolderError :: "ErrorDetail option \<Rightarrow> NotLeaseHolderError option" where
  "asNotLeaseHolderError (Some (NotLeaseHolderErrorDetail lErr)) = Some lErr"
| "asNotLeaseHolderError (Some (OtherDetail m)) = None"
| "asNotLeaseHolderError None = None"

subsection \<open>The replica\<close>

text \<open>
  What the two functions read of \<^verbatim>\<open>*Replica\<close> and of its store, and what they change:
  \<^item> \<open>RangeID\<close>: \<^verbatim>\<open>r.RangeID\<close>;
  \<^item> \<open>LeaseAppliedIndex\<close>, \<open>Lease\<close>: \<^verbatim>\<open>r.mu.state.LeaseAppliedIndex\<close>, \<^verbatim>\<open>*r.mu.state.Lease\<close>;
  \<^item> \<open>initialMaxClosed\<close>: \<^verbatim>\<open>r.mu.initialMaxClosed\<close>;
  \<^item> \<open>GetReplicaDescriptor\<close>: the result of \<^verbatim>\<open>r.GetReplicaDescriptor()\<close>, \<open>Inl\<close> its error;
  \<^item> \<open>FollowerReadsEnabled\<close>: \<^verbatim>\<open>FollowerReadsEnabled.Get(&r.store.cfg.Settings.SV)\<close>;
  \<^item> \<open>MaxClosed\<close>: \<^verbatim>\<open>r.store.cfg.ClosedTimestamp.Provider.MaxClosed\<close>, a function of
    node, range, epoch and lease applied index;
  \<^item> \<open>ProviderCalls\<close>: the calls made to the Provider so far, oldest first;
  \<^item> \<open>Requests\<close>: the calls made to \<^verbatim>\<open>r.store.cfg.ClosedTimestamp.Clients.Request\<close> so far;
  \<^item> \<open>FollowerReadsCount\<close>: the counter \<^verbatim>\<open>r.store.metrics.FollowerReadsCount\<close>.
  The last three are the effects of the functions; the functions return the replica
  with them updated. Logging (\<^verbatim>\<open>log.Eventf\<close>, and \<^verbatim>\<open>tsDiff\<close>, which only feeds it) is
  left out.
\<close>

record Replica =
  RangeID :: int
  LeaseAppliedIndex :: int
  Lease :: Lease
  initialMaxClosed :: Timestamp
  GetReplicaDescriptor :: "GoError + ReplicaDescriptor"
  FollowerReadsEnabled :: bool
  MaxClosed :: "int \<Rightarrow> int \<Rightarrow> int \<Rightarrow> int \<Rightarrow> Timestamp"
  ProviderCalls :: "(int \<times> int \<times> int \<times> int) list"
  Requests :: "(int \<times> int) list"
  FollowerReadsCount :: int

subsection \<open>maxClosed\<close>

definition maxClosed :: "Replica \<Rightarrow> (Timestamp \<times> bool) \<times> Replica" where
  "maxClosed r =
     (let lai = LeaseAppliedIndex r;
          lease = Replica.Lease r;
          initialMaxClosed = initialMaxClosed r
      in if Expiration lease \<noteq> None then ((zeroTimestamp, False), r)
         else
           let node = NodeID (Lease.Replica lease);
               maxClosed = MaxClosed r node (RangeID r) (Epoch lease) lai;
               r = r\<lparr>ProviderCalls := ProviderCalls r @ [(node, RangeID r, Epoch lease, lai)]\<rparr>;
               maxClosed = Forward maxClosed (Start lease);
               maxClosed = Forward maxClosed initialMaxClosed
           in ((maxClosed, True), r))"

subsection \<open>canServeFollowerRead\<close>

text \<open>
  The result is \<open>None\<close> for Go's \<^verbatim>\<open>nil\<close>. The conjunction \<^verbatim>\<open>eligible\<close> of the source is
  evaluated left to right and stops at the first false conjunct: \<^verbatim>\<open>lErr\<close> is read only when
  \<^verbatim>\<open>ok\<close> holds, which the two outer cases express; \<open>lh\<close> is \<^verbatim>\<open>*lErr.LeaseHolder\<close>.
\<close>

definition canServeFollowerRead ::
    "Replica \<Rightarrow> BatchRequest \<Rightarrow> Error \<Rightarrow> Error option \<times> Replica" where
  "canServeFollowerRead r ba pErr =
     (case asNotLeaseHolderError (GetDetail pErr) of
        None \<Rightarrow> (Some pErr, r)
      | Some lErr \<Rightarrow>
          (case LeaseHolder lErr of
             None \<Rightarrow> (Some pErr, r)
           | Some lh \<Rightarrow>
               let eligible =
                     (Lease.Type (NotLeaseHolderError.Lease lErr) = LeaseEpoch \<and>
                      (\<not> BatchRequest.IsLocking ba \<and> IsAllTransactional ba) \<and>
                      (case Txn ba of None \<Rightarrow> True | Some txn \<Rightarrow> \<not> Transaction.IsLocking txn) \<and>
                      FollowerReadsEnabled r)
               in if \<not> eligible then (Some pErr, r)
                  else
                    (case GetReplicaDescriptor r of
                       Inl err \<Rightarrow> (Some (NewError err), r)
                     | Inr repDesc \<Rightarrow>
                         let typ = GetType repDesc
                         in if \<not> (typ = VOTER_FULL \<or> typ = VOTER_INCOMING \<or> typ = NON_VOTER)
                            then (Some pErr, r)
                            else
                              let ts = Timestamp ba;
                                  ts = (case Txn ba of None \<Rightarrow> ts
                                        | Some txn \<Rightarrow> Forward ts (MaxTimestamp txn));
                                  ((maxClosed, ok), r) = maxClosed r;
                                  canServeFollowerRead = LessEq ts maxClosed
                              in if \<not> canServeFollowerRead
                                 then (Some pErr,
                                       r\<lparr>Requests := Requests r @ [(NodeID lh, RangeID r)]\<rparr>)
                                 else (None,
                                       r\<lparr>FollowerReadsCount := FollowerReadsCount r + 1\<rparr>))))"

subsection \<open>The MVCC versioned store\<close>

text \<open>
  Modelled from the spec: the MVCC store of \<^verbatim>\<open>pkg/storage\<close> is not among the files at hand,
  only its test data \<^verbatim>\<open>testdata/mvcc_histories/write_too_old\<close> is. The spec (4.1) gives
  the contract: \<^verbatim>\<open>Put(key, timestamp, value) -> (appliedTimestamp, error)\<close> fails with
  \<^verbatim>\<open>WriteTooOldError{existing, actual}\<close> when a committed version of the key exists at a
  timestamp at or above the requested one; \<^verbatim>\<open>actual\<close> has the wall time of the latest
  conflicting version and its logical component bumped by one; the write is still applied,
  at \<^verbatim>\<open>actual\<close>. A delete is the write of a tombstone. The store is the list of its
  versions, newest write first.
\<close>

datatype Value = BYTES string | Tombstone

record MVCCVersion =
  version_key :: string
  version_timestamp :: Timestamp
  version_value :: Value

record WriteTooOldError =
  existing :: Timestamp
  actual :: Timestamp

definition conflicting :: "MVCCVersion list \<Rightarrow> string \<Rightarrow> Timestamp \<Rightarrow> Timestamp list" where
  "conflicting store k t =
     map version_timestamp
       (filter (\<lambda>v. version_key v = k \<and> LessEq t (version_timestamp v)) store)"

fun latest :: "Timestamp list \<Rightarrow> Timestamp option" where
  "latest [] = None"
| "latest (t # rest) = (case latest rest of None \<Rightarrow> Some t | Some m \<Rightarrow> Some (Forward m t))"

definition bumpLogical :: "Timestamp \<Rightarrow> Timestamp" where
  "bumpLogical t = t\<lparr>Logical := Logical t + 1\<rparr>"

definition Put ::
    "MVCCVersion list \<Rightarrow> string \<Rightarrow> Timestamp \<Rightarrow> Value \<Rightarrow>
     MVCCVersion list \<times> Timestamp \<times> WriteTooOldError option" where
  "Put store k t v =
     (case latest (conflicting store k t) of
        None \<Rightarrow>
          (\<lparr>version_key = k, version_timestamp = t, version_value = v\<rparr> # store, t, None)
      | Some e \<Rightarrow>
          let a = bumpLogical e
          in (\<lparr>version_key = k, version_timestamp = a, version_value = v\<rparr> # store, a,
              Some \<lparr>existing = e, actual = a\<rparr>))"

definition Delete ::
    "MVCCVersion list \<Rightarrow> string \<Rightarrow> Timestamp \<Rightarrow>
     MVCCVersion list \<times> Timestamp \<times> WriteTooOldError option" where
  "Delete store k t = Put store k t Tombstone"

text \<open>
  The test data prints a timestamp as seconds, nanoseconds and logical component:
  \<^verbatim>\<open>44.000000000,1\<close> is the wall time of 44 seconds in nanoseconds, logical 1.
\<close>

definition seconds :: "64 word \<Rightarrow> 32 word \<Rightarrow> Timestamp" where
  "seconds n l = \<lparr>WallTime = n * 1000000000, Logical = l\<rparr>"

text \<open>The store after the first block of the test (lines 6 to 13): \<^verbatim>\<open>"a"/44.000000000,0 -> /BYTES/abc\<close>.\<close>

definition write_too_old_prepared :: "MVCCVersion list" where
  "write_too_old_prepared =
     [\<lparr>version_key = ''a'', version_timestamp = seconds 44 0, version_value = BYTES ''abc''\<rparr>]"

text \<open>The \<^verbatim>\<open>data:\<close> lines the test expects after the delete at \<^verbatim>\<open>ts=33\<close> (lines 25 and 26).\<close>

definition write_too_old_expected :: "MVCCVersion list" where
  "write_too_old_expected =
     [\<lparr>version_key = ''a'', version_timestamp = seconds 44 1, version_value = Tombstone\<rparr>,
      \<lparr>version_key = ''a'', version_timestamp = seconds 44 0, version_value = BYTES ''abc''\<rparr>]"

subsection \<open>The scenarios of the spec (section 8)\<close>

definition atWall :: "64 word \<Rightarrow> Timestamp" where
  "atWall n = \<lparr>WallTime = n, Logical = 0\<rparr>"

definition localDesc :: ReplicaDescriptor where
  "localDesc = \<lparr>NodeID = 1, StoreID = 1, GetType = VOTER_FULL\<rparr>"

definition holderDesc :: ReplicaDescriptor where
  "holderDesc = \<lparr>NodeID = 2, StoreID = 2, GetType = VOTER_FULL\<rparr>"

text \<open>An epoch-based lease of epoch 5, held by node 2.\<close>

definition epochLease :: "Timestamp \<Rightarrow> Lease" where
  "epochLease start =
     \<lparr>Start = start, Expiration = None, Replica = holderDesc, Epoch = 5, Type = LeaseEpoch\<rparr>"

definition expirationLease :: Lease where
  "expirationLease =
     \<lparr>Start = atWall 50, Expiration = Some (atWall 500), Replica = holderDesc, Epoch = 0,
      Type = LeaseExpiration\<rparr>"

text \<open>A Provider that knows one watermark, \<open>c\<close>, for node 2, range 7 and epoch 5.\<close>

definition providerWith :: "Timestamp \<Rightarrow> int \<Rightarrow> int \<Rightarrow> int \<Rightarrow> int \<Rightarrow> Timestamp" where
  "providerWith c node rng epoch lai =
     (if node = 2 \<and> rng = 7 \<and> epoch = 5 then c else zeroTimestamp)"

text \<open>
  Range 7 on a VOTER_FULL replica of node 1 under the lease \<open>l\<close>, with the Provider's
  watermark \<open>c\<close>, no call made yet and the counter at 0.
\<close>

definition replicaWith :: "Lease \<Rightarrow> Timestamp \<Rightarrow> Replica" where
  "replicaWith l c =
     \<lparr>RangeID = 7, LeaseAppliedIndex = 10, Lease = l, initialMaxClosed = zeroTimestamp,
      GetReplicaDescriptor = Inr localDesc, FollowerReadsEnabled = True,
      MaxClosed = providerWith c, ProviderCalls = [], Requests = [],
      FollowerReadsCount = 0\<rparr>"

text \<open>Scenarios 5 and 6: epoch 5, closed timestamp 100.\<close>

definition scenarioReplica :: Replica where
  "scenarioReplica = replicaWith (epochLease (atWall 50)) (atWall 100)"

text \<open>Scenario 9: a lease that starts at 200, and no watermark for its epoch yet.\<close>

definition transferReplica :: Replica where
  "transferReplica = replicaWith (epochLease (atWall 200)) zeroTimestamp"

text \<open>A replica whose current lease is expiration-based.\<close>

definition expirationReplica :: Replica where
  "expirationReplica = replicaWith expirationLease zeroTimestamp"

text \<open>A NotLeaseHolderError naming node 2 as the leaseholder, with the epoch-based lease.\<close>

definition scenarioError :: Error where
  "scenarioError =
     Error (Some (NotLeaseHolderErrorDetail
       \<lparr>LeaseHolder = Some holderDesc, Lease = epochLease (atWall 50)\<rparr>))"

text \<open>The error of scenario 9, with the lease that starts at 200.\<close>

definition transferError :: Error where
  "transferError =
     Error (Some (NotLeaseHolderErrorDetail
       \<lparr>LeaseHolder = Some holderDesc, Lease = epochLease (atWall 200)\<rparr>))"

text \<open>The error of scenarios 5 and 6 with no leaseholder known.\<close>

definition noHolderError :: Error where
  "noHolderError =
     Error (Some (NotLeaseHolderErrorDetail
       \<lparr>LeaseHolder = None, Lease = epochLease (atWall 50)\<rparr>))"

text \<open>A non-locking, all-transactional read at \<open>t\<close>, outside a transaction.\<close>

definition readAt :: "Timestamp \<Rightarrow> BatchRequest" where
  "readAt t = \<lparr>Timestamp = t, Txn = None, IsLocking = False, IsAllTransactional = True\<rparr>"

text \<open>The same read inside a non-locking transaction whose uncertainty interval ends at \<open>m\<close>.\<close>

definition txnReadAt :: "Timestamp \<Rightarrow> Timestamp \<Rightarrow> BatchRequest" where
  "txnReadAt t m =
     \<lparr>Timestamp = t, Txn = Some \<lparr>MaxTimestamp = m, IsLocking = False\<rparr>, IsLocking = False,
      IsAllTransactional = True\<rparr>"

text \<open>
  The spec's effective timestamp of a request (4.4, step 3): the request's timestamp,
  forwarded to the transaction's \<^verbatim>\<open>MaxTimestamp\<close> when the request has a transaction. It
  abbreviates the value the source computes in its local \<^verbatim>\<open>ts\<close>.
\<close>

abbreviation effectiveTimestamp :: "BatchRequest \<Rightarrow> Timestamp" where
  "effectiveTimestamp ba \<equiv>
     (case Txn ba of None \<Rightarrow> BatchRequest.Timestamp ba
      | Some txn \<Rightarrow> Forward (BatchRequest.Timestamp ba) (MaxTimestamp txn))"

section \<open>The order of timestamps\<close>

lemma LessEq_refl: "LessEq t t"
  by (simp add: LessEq_def)

lemma LessEq_total: "LessEq t s \<or> LessEq s t"
  unfolding LessEq_def
  by (metis linorder_less_linear nle_le signed_word_eqI)

lemma LessEq_trans: "LessEq a b \<Longrightarrow> LessEq b c \<Longrightarrow> LessEq a c"
  unfolding LessEq_def by auto

lemma LessEq_antisym: "LessEq a b \<Longrightarrow> LessEq b a \<Longrightarrow> a = (b::Timestamp)"
  unfolding LessEq_def
  by (auto intro!: Timestamp.equality dest: signed_word_eqI)

lemma Forward_cases: "Forward t s = t \<or> Forward t s = s"
  by (simp add: Forward_def)

lemma Forward_ge1: "LessEq t (Forward t s)"
  by (simp add: Forward_def LessEq_refl)

lemma Forward_ge2: "LessEq s (Forward t s)"
  using LessEq_total [of t s] by (auto simp add: Forward_def LessEq_refl)

text \<open>\<open>Forward t s\<close> is the least upper bound of \<open>t\<close> and \<open>s\<close>.\<close>

lemma Forward_le_iff: "LessEq (Forward t s) m \<longleftrightarrow> LessEq t m \<and> LessEq s m"
  using LessEq_total [of t s] by (auto simp add: Forward_def intro: LessEq_trans)

lemma le_Forward_iff: "LessEq x (Forward t s) \<longleftrightarrow> LessEq x t \<or> LessEq x s"
  using LessEq_total [of t s] by (auto simp add: Forward_def intro: LessEq_trans)

text \<open>Below or at the zero timestamp there are, among the timestamps without a negative
  component, only the zero timestamp itself.\<close>

lemma LessEq_zero_iff:
  "0 \<le> sint (WallTime t) \<Longrightarrow> 0 \<le> sint (Logical t) \<Longrightarrow>
   LessEq t zeroTimestamp \<longleftrightarrow> t = zeroTimestamp"
proof
  assume nonneg: "0 \<le> sint (WallTime t)" "0 \<le> sint (Logical t)" and le: "LessEq t zeroTimestamp"
  have "LessEq zeroTimestamp t"
  proof (cases "sint (WallTime t) = 0")
    case True
    then have "WallTime t = 0"
      using signed_word_eqI [of "WallTime t" 0] by simp
    with nonneg show ?thesis by (simp add: LessEq_def zeroTimestamp_def)
  next
    case False
    with nonneg have "0 < sint (WallTime t)" by simp
    then show ?thesis by (simp add: LessEq_def zeroTimestamp_def)
  qed
  with le show "t = zeroTimestamp" by (rule LessEq_antisym)
next
  assume "t = zeroTimestamp"
  then show "LessEq t zeroTimestamp" by (simp add: LessEq_refl)
qed

section \<open>The branches of maxClosed and canServeFollowerRead\<close>

lemma maxClosed_expiration:
  "Expiration (Replica.Lease r) \<noteq> None \<Longrightarrow> maxClosed r = ((zeroTimestamp, False), r)"
  by (simp add: maxClosed_def)

lemma maxClosed_epoch:
  "Expiration (Replica.Lease r) = None \<Longrightarrow>
   maxClosed r =
     ((Forward (Forward (MaxClosed r (NodeID (Lease.Replica (Replica.Lease r))) (RangeID r)
                           (Epoch (Replica.Lease r)) (LeaseAppliedIndex r))
                  (Start (Replica.Lease r)))
         (initialMaxClosed r), True),
      r\<lparr>ProviderCalls := ProviderCalls r @
          [(NodeID (Lease.Replica (Replica.Lease r)), RangeID r, Epoch (Replica.Lease r),
            LeaseAppliedIndex r)]\<rparr>)"
  by (simp add: maxClosed_def Let_def)

text \<open>\<open>maxClosed\<close> changes nothing but the record of the calls to the Provider.\<close>

lemma maxClosed_frame:
  "RangeID (snd (maxClosed r)) = RangeID r \<and>
   Requests (snd (maxClosed r)) = Requests r \<and>
   FollowerReadsCount (snd (maxClosed r)) = FollowerReadsCount r"
  by (cases "Expiration (Replica.Lease r)") (simp_all add: maxClosed_def Let_def)

lemma canServe_no_detail:
  "asNotLeaseHolderError (GetDetail pErr) = None \<Longrightarrow>
   canServeFollowerRead r ba pErr = (Some pErr, r)"
  by (simp add: canServeFollowerRead_def)

lemma canServe_no_holder:
  "asNotLeaseHolderError (GetDetail pErr) = Some lErr \<Longrightarrow> LeaseHolder lErr = None \<Longrightarrow>
   canServeFollowerRead r ba pErr = (Some pErr, r)"
  by (simp add: canServeFollowerRead_def)

lemma canServe_ineligible:
  "Lease.Type (NotLeaseHolderError.Lease lErr) \<noteq> LeaseEpoch \<or> BatchRequest.IsLocking ba \<or>
   \<not> IsAllTransactional ba \<or> (\<exists>txn. Txn ba = Some txn \<and> Transaction.IsLocking txn) \<or>
   \<not> FollowerReadsEnabled r \<Longrightarrow>
   asNotLeaseHolderError (GetDetail pErr) = Some lErr \<Longrightarrow>
   canServeFollowerRead r ba pErr = (Some pErr, r)"
  by (cases "LeaseHolder lErr") (auto simp add: canServeFollowerRead_def)

text \<open>Past the test of \<^verbatim>\<open>eligible\<close>: the descriptor, its type and the comparison remain.\<close>

lemma canServe_eligible:
  assumes "asNotLeaseHolderError (GetDetail pErr) = Some lErr"
    and "LeaseHolder lErr = Some lh"
    and "Lease.Type (NotLeaseHolderError.Lease lErr) = LeaseEpoch"
    and "\<not> BatchRequest.IsLocking ba" and "IsAllTransactional ba"
    and "\<forall>txn. Txn ba = Some txn \<longrightarrow> \<not> Transaction.IsLocking txn"
    and "FollowerReadsEnabled r"
  shows "canServeFollowerRead r ba pErr =
     (case GetReplicaDescriptor r of
        Inl err \<Rightarrow> (Some (NewError err), r)
      | Inr repDesc \<Rightarrow>
          if GetType repDesc = VOTER_FULL \<or> GetType repDesc = VOTER_INCOMING \<or>
             GetType repDesc = NON_VOTER
          then
            if LessEq (effectiveTimestamp ba) (fst (fst (maxClosed r)))
            then (None, (snd (maxClosed r))
                           \<lparr>FollowerReadsCount := FollowerReadsCount r + 1\<rparr>)
            else (Some pErr, (snd (maxClosed r))
                           \<lparr>Requests := Requests r @ [(NodeID lh, RangeID r)]\<rparr>)
          else (Some pErr, r))"
proof -
  have txn: "(case Txn ba of None \<Rightarrow> True | Some txn \<Rightarrow> \<not> Transaction.IsLocking txn)"
    using assms(6) by (cases "Txn ba") simp_all
  show ?thesis
    using assms(1-5,7) txn maxClosed_frame [of r]
    by (simp add: canServeFollowerRead_def Let_def split_beta split: sum.split)
qed

text \<open>Nothing is served when the request fails any test before the comparison.\<close>

lemma canServe_nil_D:
  assumes "fst (canServeFollowerRead r ba pErr) = None"
  shows "\<exists>lErr lh repDesc.
      asNotLeaseHolderError (GetDetail pErr) = Some lErr \<and> LeaseHolder lErr = Some lh \<and>
      Lease.Type (NotLeaseHolderError.Lease lErr) = LeaseEpoch \<and>
      \<not> BatchRequest.IsLocking ba \<and> IsAllTransactional ba \<and>
      (\<forall>txn. Txn ba = Some txn \<longrightarrow> \<not> Transaction.IsLocking txn) \<and>
      FollowerReadsEnabled r \<and> GetReplicaDescriptor r = Inr repDesc \<and>
      (GetType repDesc = VOTER_FULL \<or> GetType repDesc = VOTER_INCOMING \<or>
       GetType repDesc = NON_VOTER) \<and>
      LessEq (effectiveTimestamp ba) (fst (fst (maxClosed r)))"
proof (cases "asNotLeaseHolderError (GetDetail pErr)")
  case None
  with assms show ?thesis by (simp add: canServe_no_detail)
next
  case (Some lErr)
  show ?thesis
  proof (cases "LeaseHolder lErr")
    case None
    with Some assms show ?thesis by (simp add: canServe_no_holder)
  next
    case holder: (Some lh)
    show ?thesis
    proof (cases "Lease.Type (NotLeaseHolderError.Lease lErr) \<noteq> LeaseEpoch \<or>
                  BatchRequest.IsLocking ba \<or> \<not> IsAllTransactional ba \<or>
                  (\<exists>txn. Txn ba = Some txn \<and> Transaction.IsLocking txn) \<or>
                  \<not> FollowerReadsEnabled r")
      case True
      from canServe_ineligible [OF True Some] assms show ?thesis by simp
    next
      case False
      then have gates: "Lease.Type (NotLeaseHolderError.Lease lErr) = LeaseEpoch"
        "\<not> BatchRequest.IsLocking ba" "IsAllTransactional ba"
        "\<forall>txn. Txn ba = Some txn \<longrightarrow> \<not> Transaction.IsLocking txn" "FollowerReadsEnabled r"
        by auto
      note eq = canServe_eligible [OF Some holder gates]
      show ?thesis
      proof (cases "GetReplicaDescriptor r")
        case (Inl err)
        with eq assms show ?thesis by simp
      next
        case (Inr repDesc)
        with eq assms Some holder gates show ?thesis
          by (auto split: if_splits)
      qed
    qed
  qed
qed

lemmas scenario_defs = scenarioReplica_def transferReplica_def expirationReplica_def
  replicaWith_def epochLease_def expirationLease_def providerWith_def scenarioError_def
  transferError_def noHolderError_def readAt_def txnReadAt_def atWall_def localDesc_def
  holderDesc_def zeroTimestamp_def

lemmas eval_defs = canServeFollowerRead_def maxClosed_def Forward_def LessEq_def Let_def

section \<open>The claims\<close>

text \<open>
  C1, as stated, fails: the list of conditions leaves out the test
  \<^verbatim>\<open>lErr.LeaseHolder != nil\<close>. In scenario 5 of the spec with no leaseholder in the error,
  every condition of the claim holds and the prior error comes back.
\<close>

theorem nil_iff_counterexample:
  "asNotLeaseHolderError (GetDetail noHolderError) =
     Some \<lparr>LeaseHolder = None, Lease = epochLease (atWall 50)\<rparr> \<and>
   Lease.Type (epochLease (atWall 50)) = LeaseEpoch \<and>
   \<not> BatchRequest.IsLocking (readAt (atWall 90)) \<and>
   IsAllTransactional (readAt (atWall 90)) \<and>
   Txn (readAt (atWall 90)) = None \<and>
   FollowerReadsEnabled scenarioReplica \<and>
   GetReplicaDescriptor scenarioReplica = Inr localDesc \<and>
   GetType localDesc = VOTER_FULL \<and>
   LessEq (BatchRequest.Timestamp (readAt (atWall 90))) (fst (fst (maxClosed scenarioReplica))) \<and>
   fst (canServeFollowerRead scenarioReplica (readAt (atWall 90)) noHolderError) =
     Some noHolderError"
  by (simp add: scenario_defs eval_defs)

text \<open>
  C1, amended. \<^verbatim>\<open>canServeFollowerRead\<close> returns nil if and only if the prior error carries
  a NotLeaseHolderError whose \<^verbatim>\<open>LeaseHolder\<close> is not nil and whose lease is epoch-based, the
  request is non-locking and all-transactional, its transaction (if any) is non-locking,
  the setting is enabled, the local replica's descriptor resolves and has type VOTER_FULL,
  VOTER_INCOMING or NON_VOTER, and the request's effective timestamp is at or below the
  timestamp \<^verbatim>\<open>maxClosed\<close> returns. When it returns nil the counter is incremented by one.
\<close>

theorem canServeFollowerRead_nil_iff:
  "(fst (canServeFollowerRead r ba pErr) = None \<longleftrightarrow>
     (\<exists>lErr lh repDesc.
        asNotLeaseHolderError (GetDetail pErr) = Some lErr \<and> LeaseHolder lErr = Some lh \<and>
        Lease.Type (NotLeaseHolderError.Lease lErr) = LeaseEpoch \<and>
        \<not> BatchRequest.IsLocking ba \<and> IsAllTransactional ba \<and>
        (\<forall>txn. Txn ba = Some txn \<longrightarrow> \<not> Transaction.IsLocking txn) \<and>
        FollowerReadsEnabled r \<and> GetReplicaDescriptor r = Inr repDesc \<and>
        (GetType repDesc = VOTER_FULL \<or> GetType repDesc = VOTER_INCOMING \<or>
         GetType repDesc = NON_VOTER) \<and>
        LessEq (effectiveTimestamp ba) (fst (fst (maxClosed r))))) \<and>
   (fst (canServeFollowerRead r ba pErr) = None \<longrightarrow>
      FollowerReadsCount (snd (canServeFollowerRead r ba pErr)) = FollowerReadsCount r + 1)"
proof -
  have served: "canServeFollowerRead r ba pErr =
      (None, (snd (maxClosed r))\<lparr>FollowerReadsCount := FollowerReadsCount r + 1\<rparr>)"
    if "asNotLeaseHolderError (GetDetail pErr) = Some lErr" "LeaseHolder lErr = Some lh"
       "Lease.Type (NotLeaseHolderError.Lease lErr) = LeaseEpoch"
       "\<not> BatchRequest.IsLocking ba" "IsAllTransactional ba"
       "\<forall>txn. Txn ba = Some txn \<longrightarrow> \<not> Transaction.IsLocking txn"
       "FollowerReadsEnabled r" "GetReplicaDescriptor r = Inr repDesc"
       "GetType repDesc = VOTER_FULL \<or> GetType repDesc = VOTER_INCOMING \<or>
        GetType repDesc = NON_VOTER"
       "LessEq (effectiveTimestamp ba) (fst (fst (maxClosed r)))"
    for lErr lh repDesc
    using canServe_eligible [OF that(1-7)] that(8-10) by simp
  show ?thesis
  proof (intro conjI iffI impI)
    assume "fst (canServeFollowerRead r ba pErr) = None"
    then show "\<exists>lErr lh repDesc.
        asNotLeaseHolderError (GetDetail pErr) = Some lErr \<and> LeaseHolder lErr = Some lh \<and>
        Lease.Type (NotLeaseHolderError.Lease lErr) = LeaseEpoch \<and>
        \<not> BatchRequest.IsLocking ba \<and> IsAllTransactional ba \<and>
        (\<forall>txn. Txn ba = Some txn \<longrightarrow> \<not> Transaction.IsLocking txn) \<and>
        FollowerReadsEnabled r \<and> GetReplicaDescriptor r = Inr repDesc \<and>
        (GetType repDesc = VOTER_FULL \<or> GetType repDesc = VOTER_INCOMING \<or>
         GetType repDesc = NON_VOTER) \<and>
        LessEq (effectiveTimestamp ba) (fst (fst (maxClosed r)))"
      by (rule canServe_nil_D)
  next
    assume "\<exists>lErr lh repDesc.
        asNotLeaseHolderError (GetDetail pErr) = Some lErr \<and> LeaseHolder lErr = Some lh \<and>
        Lease.Type (NotLeaseHolderError.Lease lErr) = LeaseEpoch \<and>
        \<not> BatchRequest.IsLocking ba \<and> IsAllTransactional ba \<and>
        (\<forall>txn. Txn ba = Some txn \<longrightarrow> \<not> Transaction.IsLocking txn) \<and>
        FollowerReadsEnabled r \<and> GetReplicaDescriptor r = Inr repDesc \<and>
        (GetType repDesc = VOTER_FULL \<or> GetType repDesc = VOTER_INCOMING \<or>
         GetType repDesc = NON_VOTER) \<and>
        LessEq (effectiveTimestamp ba) (fst (fst (maxClosed r)))"
    then show "fst (canServeFollowerRead r ba pErr) = None"
      using served by fastforce
  next
    assume "fst (canServeFollowerRead r ba pErr) = None"
    from canServe_nil_D [OF this] obtain lErr lh repDesc where
      "asNotLeaseHolderError (GetDetail pErr) = Some lErr" "LeaseHolder lErr = Some lh"
      "Lease.Type (NotLeaseHolderError.Lease lErr) = LeaseEpoch"
      "\<not> BatchRequest.IsLocking ba" "IsAllTransactional ba"
      "\<forall>txn. Txn ba = Some txn \<longrightarrow> \<not> Transaction.IsLocking txn"
      "FollowerReadsEnabled r" "GetReplicaDescriptor r = Inr repDesc"
      "GetType repDesc = VOTER_FULL \<or> GetType repDesc = VOTER_INCOMING \<or>
        GetType repDesc = NON_VOTER"
      "LessEq (effectiveTimestamp ba) (fst (fst (maxClosed r)))"
      by blast
    from served [OF this]
    show "FollowerReadsCount (snd (canServeFollowerRead r ba pErr)) = FollowerReadsCount r + 1"
      by simp
  qed
qed

text \<open>
  The witness: scenario 5 of the spec (epoch 5, closed timestamp 100, a non-locking read
  at 90 on a VOTER_FULL replica) is served and the counter goes from 0 to 1.
\<close>

theorem canServeFollowerRead_nil_witness:
  "fst (canServeFollowerRead scenarioReplica (readAt (atWall 90)) scenarioError) = None \<and>
   FollowerReadsCount
     (snd (canServeFollowerRead scenarioReplica (readAt (atWall 90)) scenarioError)) = 1"
proof -
  let ?lErr = "\<lparr>LeaseHolder = Some holderDesc, Lease = epochLease (atWall 50)\<rparr>"
  have "asNotLeaseHolderError (GetDetail scenarioError) = Some ?lErr \<and>
      LeaseHolder ?lErr = Some holderDesc \<and>
      Lease.Type (NotLeaseHolderError.Lease ?lErr) = LeaseEpoch \<and>
      \<not> BatchRequest.IsLocking (readAt (atWall 90)) \<and>
      IsAllTransactional (readAt (atWall 90)) \<and>
      (\<forall>txn. Txn (readAt (atWall 90)) = Some txn \<longrightarrow> \<not> Transaction.IsLocking txn) \<and>
      FollowerReadsEnabled scenarioReplica \<and>
      GetReplicaDescriptor scenarioReplica = Inr localDesc \<and>
      (GetType localDesc = VOTER_FULL \<or> GetType localDesc = VOTER_INCOMING \<or>
       GetType localDesc = NON_VOTER) \<and>
      LessEq (effectiveTimestamp (readAt (atWall 90))) (fst (fst (maxClosed scenarioReplica)))"
    by (simp add: scenario_defs eval_defs)
  then have rhs: "\<exists>lErr lh repDesc.
      asNotLeaseHolderError (GetDetail scenarioError) = Some lErr \<and>
      LeaseHolder lErr = Some lh \<and>
      Lease.Type (NotLeaseHolderError.Lease lErr) = LeaseEpoch \<and>
      \<not> BatchRequest.IsLocking (readAt (atWall 90)) \<and>
      IsAllTransactional (readAt (atWall 90)) \<and>
      (\<forall>txn. Txn (readAt (atWall 90)) = Some txn \<longrightarrow> \<not> Transaction.IsLocking txn) \<and>
      FollowerReadsEnabled scenarioReplica \<and>
      GetReplicaDescriptor scenarioReplica = Inr repDesc \<and>
      (GetType repDesc = VOTER_FULL \<or> GetType repDesc = VOTER_INCOMING \<or>
       GetType repDesc = NON_VOTER) \<and>
      LessEq (effectiveTimestamp (readAt (atWall 90))) (fst (fst (maxClosed scenarioReplica)))"
    by blast
  have zero: "FollowerReadsCount scenarioReplica = 0"
    by (simp add: scenario_defs)
  from canServeFollowerRead_nil_iff [of scenarioReplica "readAt (atWall 90)" scenarioError] rhs
  have "fst (canServeFollowerRead scenarioReplica (readAt (atWall 90)) scenarioError) = None \<and>
    FollowerReadsCount
      (snd (canServeFollowerRead scenarioReplica (readAt (atWall 90)) scenarioError)) =
      FollowerReadsCount scenarioReplica + 1"
    by blast
  with zero show ?thesis by simp
qed

text \<open>
  C2. When the replica's current lease carries no expiration (an epoch-based lease, as
  \<^verbatim>\<open>maxClosed\<close> tells them apart), the timestamp \<^verbatim>\<open>maxClosed\<close> returns is the maximum of
  three: the Provider's \<^verbatim>\<open>MaxClosed\<close> for the lease's node, the range, the lease's epoch and
  the current lease applied index; the lease's start; and \<^verbatim>\<open>initialMaxClosed\<close>. It is one of
  the three and each of the three is at or below it. The decision uses it: a request that
  passes the other tests is served exactly when its effective timestamp is at or below
  one of the three. In particular a request at or below the lease's start is served
  whatever the Provider returns.
\<close>

theorem maxClosed_is_maximum_of_three:
  assumes "Expiration (Replica.Lease r) = None"
  shows
  "(fst (fst (maxClosed r)) =
      MaxClosed r (NodeID (Lease.Replica (Replica.Lease r))) (RangeID r)
        (Epoch (Replica.Lease r)) (LeaseAppliedIndex r) \<or>
    fst (fst (maxClosed r)) = Start (Replica.Lease r) \<or>
    fst (fst (maxClosed r)) = initialMaxClosed r) \<and>
   LessEq (MaxClosed r (NodeID (Lease.Replica (Replica.Lease r))) (RangeID r)
             (Epoch (Replica.Lease r)) (LeaseAppliedIndex r))
     (fst (fst (maxClosed r))) \<and>
   LessEq (Start (Replica.Lease r)) (fst (fst (maxClosed r))) \<and>
   LessEq (initialMaxClosed r) (fst (fst (maxClosed r))) \<and>
   snd (fst (maxClosed r)) \<and>
   (asNotLeaseHolderError (GetDetail pErr) = Some lErr \<and> LeaseHolder lErr = Some lh \<and>
    Lease.Type (NotLeaseHolderError.Lease lErr) = LeaseEpoch \<and>
    \<not> BatchRequest.IsLocking ba \<and> IsAllTransactional ba \<and>
    (\<forall>txn. Txn ba = Some txn \<longrightarrow> \<not> Transaction.IsLocking txn) \<and>
    FollowerReadsEnabled r \<and> GetReplicaDescriptor r = Inr repDesc \<and>
    (GetType repDesc = VOTER_FULL \<or> GetType repDesc = VOTER_INCOMING \<or>
     GetType repDesc = NON_VOTER)
    \<longrightarrow>
    (fst (canServeFollowerRead r ba pErr) = None \<longleftrightarrow>
       LessEq (effectiveTimestamp ba)
         (MaxClosed r (NodeID (Lease.Replica (Replica.Lease r))) (RangeID r)
            (Epoch (Replica.Lease r)) (LeaseAppliedIndex r)) \<or>
       LessEq (effectiveTimestamp ba) (Start (Replica.Lease r)) \<or>
       LessEq (effectiveTimestamp ba) (initialMaxClosed r)) \<and>
    (LessEq (effectiveTimestamp ba) (Start (Replica.Lease r)) \<longrightarrow>
       fst (canServeFollowerRead r ba pErr) = None))"
proof -
  let ?p = "MaxClosed r (NodeID (Lease.Replica (Replica.Lease r))) (RangeID r)
              (Epoch (Replica.Lease r)) (LeaseAppliedIndex r)"
  let ?s = "Start (Replica.Lease r)"
  let ?i = "initialMaxClosed r"
  have m: "fst (fst (maxClosed r)) = Forward (Forward ?p ?s) ?i" and ok: "snd (fst (maxClosed r))"
    using maxClosed_epoch [OF assms] by simp_all
  have one: "Forward (Forward ?p ?s) ?i = ?p \<or> Forward (Forward ?p ?s) ?i = ?s \<or>
      Forward (Forward ?p ?s) ?i = ?i"
    using Forward_cases [of "Forward ?p ?s" ?i] Forward_cases [of ?p ?s] by auto
  have le: "\<And>x. LessEq x (Forward (Forward ?p ?s) ?i) \<longleftrightarrow>
      LessEq x ?p \<or> LessEq x ?s \<or> LessEq x ?i"
    by (simp add: le_Forward_iff)
  have ub: "LessEq ?p (Forward (Forward ?p ?s) ?i)" "LessEq ?s (Forward (Forward ?p ?s) ?i)"
    "LessEq ?i (Forward (Forward ?p ?s) ?i)"
    by (simp_all add: le LessEq_refl)
  have decision: "fst (canServeFollowerRead r ba pErr) = None \<longleftrightarrow>
      LessEq (effectiveTimestamp ba) (Forward (Forward ?p ?s) ?i)"
    if "asNotLeaseHolderError (GetDetail pErr) = Some lErr \<and> LeaseHolder lErr = Some lh \<and>
    Lease.Type (NotLeaseHolderError.Lease lErr) = LeaseEpoch \<and>
    \<not> BatchRequest.IsLocking ba \<and> IsAllTransactional ba \<and>
    (\<forall>txn. Txn ba = Some txn \<longrightarrow> \<not> Transaction.IsLocking txn) \<and>
    FollowerReadsEnabled r \<and> GetReplicaDescriptor r = Inr repDesc \<and>
    (GetType repDesc = VOTER_FULL \<or> GetType repDesc = VOTER_INCOMING \<or>
     GetType repDesc = NON_VOTER)"
    using that canServe_eligible [of pErr lErr lh ba r] m by simp
  show ?thesis
    using one ub ok decision unfolding m le by blast
qed

text \<open>
  The witness: scenario 9 of the spec. The lease starts at 200, the Provider knows no
  watermark for its epoch and returns the zero timestamp, and the read at 150 is served.
\<close>

theorem maxClosed_lease_start_witness:
  "MaxClosed transferReplica (NodeID (Lease.Replica (Replica.Lease transferReplica)))
     (RangeID transferReplica) (Epoch (Replica.Lease transferReplica))
     (LeaseAppliedIndex transferReplica) = zeroTimestamp \<and>
   fst (fst (maxClosed transferReplica)) = atWall 200 \<and>
   fst (canServeFollowerRead transferReplica (readAt (atWall 150)) transferError) = None"
proof -
  let ?lErr = "\<lparr>LeaseHolder = Some holderDesc, Lease = epochLease (atWall 200)\<rparr>"
  have epoch: "Expiration (Replica.Lease transferReplica) = None"
    by (simp add: scenario_defs)
  have zero: "MaxClosed transferReplica (NodeID (Lease.Replica (Replica.Lease transferReplica)))
     (RangeID transferReplica) (Epoch (Replica.Lease transferReplica))
     (LeaseAppliedIndex transferReplica) = zeroTimestamp"
    by (simp add: scenario_defs)
  have m: "fst (fst (maxClosed transferReplica)) = atWall 200"
    by (simp add: scenario_defs eval_defs)
  have gates: "asNotLeaseHolderError (GetDetail transferError) = Some ?lErr \<and>
      LeaseHolder ?lErr = Some holderDesc \<and>
      Lease.Type (NotLeaseHolderError.Lease ?lErr) = LeaseEpoch \<and>
      \<not> BatchRequest.IsLocking (readAt (atWall 150)) \<and>
      IsAllTransactional (readAt (atWall 150)) \<and>
      (\<forall>txn. Txn (readAt (atWall 150)) = Some txn \<longrightarrow> \<not> Transaction.IsLocking txn) \<and>
      FollowerReadsEnabled transferReplica \<and>
      GetReplicaDescriptor transferReplica = Inr localDesc \<and>
      (GetType localDesc = VOTER_FULL \<or> GetType localDesc = VOTER_INCOMING \<or>
       GetType localDesc = NON_VOTER)"
    by (auto simp add: scenario_defs)
  have floor: "LessEq (effectiveTimestamp (readAt (atWall 150)))
      (Start (Replica.Lease transferReplica))"
    by (simp add: scenario_defs LessEq_def)
  from maxClosed_is_maximum_of_three
         [OF epoch, of transferError ?lErr holderDesc "readAt (atWall 150)" localDesc]
       gates floor
  have "fst (canServeFollowerRead transferReplica (readAt (atWall 150)) transferError) = None"
    by blast
  with zero m show ?thesis by simp
qed

text \<open>
  C3. With a committed version of key \<^verbatim>\<open>"a"\<close> at \<^verbatim>\<open>44.000000000,0\<close>, a Put or a Delete of
  \<^verbatim>\<open>"a"\<close> requested at timestamp 33 returns a WriteTooOldError whose actual timestamp is
  \<^verbatim>\<open>44.000000000,1\<close>: the wall time of the existing version, the logical component bumped to
  1. The write is applied at that timestamp, and the version at \<^verbatim>\<open>44.000000000,0\<close> stays as
  it was: the new store is the new version put before the old store. For the Delete the
  store is the one the test data expects.
\<close>

theorem write_too_old_applied_at_actual:
  "Put write_too_old_prepared ''a'' (seconds 33 0) v =
     (\<lparr>version_key = ''a'', version_timestamp = seconds 44 1, version_value = v\<rparr> #
        write_too_old_prepared,
      seconds 44 1,
      Some \<lparr>existing = seconds 44 0, actual = seconds 44 1\<rparr>) \<and>
   Delete write_too_old_prepared ''a'' (seconds 33 0) =
     (write_too_old_expected, seconds 44 1,
      Some \<lparr>existing = seconds 44 0, actual = seconds 44 1\<rparr>) \<and>
   seconds 44 1 = \<lparr>WallTime = WallTime (seconds 44 0), Logical = 1\<rparr> \<and>
   \<lparr>version_key = ''a'', version_timestamp = seconds 44 0, version_value = BYTES ''abc''\<rparr>
     \<in> set (fst (Put write_too_old_prepared ''a'' (seconds 33 0) v))"
proof -
  have conflict: "latest (conflicting write_too_old_prepared ''a'' (seconds 33 0)) =
      Some (seconds 44 0)"
    by (simp add: conflicting_def write_too_old_prepared_def seconds_def LessEq_def)
  have bump: "bumpLogical (seconds 44 0) = seconds 44 1"
    by (simp add: bumpLogical_def seconds_def)
  have put: "Put write_too_old_prepared ''a'' (seconds 33 0) v =
     (\<lparr>version_key = ''a'', version_timestamp = seconds 44 1, version_value = v\<rparr> #
        write_too_old_prepared,
      seconds 44 1,
      Some \<lparr>existing = seconds 44 0, actual = seconds 44 1\<rparr>)" for v
    by (simp add: Put_def conflict bump Let_def)
  have del: "Delete write_too_old_prepared ''a'' (seconds 33 0) =
     (write_too_old_expected, seconds 44 1,
      Some \<lparr>existing = seconds 44 0, actual = seconds 44 1\<rparr>)"
    using put [of Tombstone]
    by (simp add: Delete_def write_too_old_expected_def write_too_old_prepared_def)
  have same_wall: "seconds 44 1 = \<lparr>WallTime = WallTime (seconds 44 0), Logical = 1\<rparr>"
    by (simp add: seconds_def)
  have kept: "\<lparr>version_key = ''a'', version_timestamp = seconds 44 0,
        version_value = BYTES ''abc''\<rparr>
      \<in> set (fst (Put write_too_old_prepared ''a'' (seconds 33 0) v))"
    using put [of v] by (simp add: write_too_old_prepared_def)
  from put del same_wall kept show ?thesis by simp
qed

text \<open>The witness: the Put of the value \<^verbatim>\<open>xyz\<close> at timestamp 33.\<close>

theorem write_too_old_witness:
  "snd (Put write_too_old_prepared ''a'' (seconds 33 0) (BYTES ''xyz'')) =
     (\<lparr>WallTime = 44000000000, Logical = 1\<rparr>,
      Some \<lparr>existing = \<lparr>WallTime = 44000000000, Logical = 0\<rparr>,
            actual = \<lparr>WallTime = 44000000000, Logical = 1\<rparr>\<rparr>)"
  using write_too_old_applied_at_actual [of "BYTES ''xyz''"] by (simp add: seconds_def)

text \<open>
  C4, as stated, fails in its last part. The lease that \<^verbatim>\<open>canServeFollowerRead\<close> tests is
  the one carried by the NotLeaseHolderError, the lease that \<^verbatim>\<open>maxClosed\<close> tests is the
  replica's current one, and the \<^verbatim>\<open>ok\<close> that \<^verbatim>\<open>maxClosed\<close> returns is discarded. On a
  replica whose current lease is expiration-based, with an error that carries an
  epoch-based lease, a read at the zero timestamp is served.
\<close>

theorem expiration_lease_counterexample:
  "Expiration (Replica.Lease expirationReplica) = Some (atWall 500) \<and>
   Lease.Type (Replica.Lease expirationReplica) = LeaseExpiration \<and>
   maxClosed expirationReplica = ((zeroTimestamp, False), expirationReplica) \<and>
   fst (canServeFollowerRead expirationReplica (readAt zeroTimestamp) scenarioError) = None"
  by (simp add: scenario_defs eval_defs)

text \<open>
  C4, amended. \<^verbatim>\<open>maxClosed\<close> returns \<^verbatim>\<open>ok = false\<close> exactly when the replica's current lease
  carries an expiration, and then together with the zero timestamp and without calling
  the Provider. In that case \<^verbatim>\<open>canServeFollowerRead\<close> never returns nil for a request whose
  effective timestamp is above the zero timestamp, and returns the original error when
  the replica's descriptor resolves. Whenever the lease carried by the
  NotLeaseHolderError is expiration-based it returns the original error and has no
  effect.
\<close>

theorem expiration_lease_not_served:
  "(\<not> snd (fst (maxClosed r)) \<longleftrightarrow> Expiration (Replica.Lease r) \<noteq> None) \<and>
   (Expiration (Replica.Lease r) \<noteq> None \<longrightarrow> maxClosed r = ((zeroTimestamp, False), r)) \<and>
   (Expiration (Replica.Lease r) \<noteq> None \<and> \<not> LessEq (effectiveTimestamp ba) zeroTimestamp
      \<longrightarrow> fst (canServeFollowerRead r ba pErr) \<noteq> None \<and>
          (\<forall>repDesc. GetReplicaDescriptor r = Inr repDesc \<longrightarrow>
             fst (canServeFollowerRead r ba pErr) = Some pErr)) \<and>
   (asNotLeaseHolderError (GetDetail pErr) = Some lErr \<and>
    Lease.Type (NotLeaseHolderError.Lease lErr) = LeaseExpiration
      \<longrightarrow> canServeFollowerRead r ba pErr = (Some pErr, r))"
proof (intro conjI impI allI)
  show "\<not> snd (fst (maxClosed r)) \<longleftrightarrow> Expiration (Replica.Lease r) \<noteq> None"
    by (cases "Expiration (Replica.Lease r)") (simp_all add: maxClosed_def Let_def)
next
  assume "Expiration (Replica.Lease r) \<noteq> None"
  then show "maxClosed r = ((zeroTimestamp, False), r)" by (rule maxClosed_expiration)
next
  assume a: "Expiration (Replica.Lease r) \<noteq> None \<and> \<not> LessEq (effectiveTimestamp ba) zeroTimestamp"
  then have m: "maxClosed r = ((zeroTimestamp, False), r)" by (simp add: maxClosed_expiration)
  show notnil: "fst (canServeFollowerRead r ba pErr) \<noteq> None"
  proof
    assume "fst (canServeFollowerRead r ba pErr) = None"
    from canServe_nil_D [OF this] m a show False by auto
  qed
  fix repDesc
  assume desc: "GetReplicaDescriptor r = Inr repDesc"
  show "fst (canServeFollowerRead r ba pErr) = Some pErr"
  proof (cases "asNotLeaseHolderError (GetDetail pErr)")
    case None
    then show ?thesis by (simp add: canServe_no_detail)
  next
    case (Some lErr')
    show ?thesis
    proof (cases "LeaseHolder lErr'")
      case None
      with Some show ?thesis by (simp add: canServe_no_holder)
    next
      case holder: (Some lh)
      show ?thesis
      proof (cases "Lease.Type (NotLeaseHolderError.Lease lErr') \<noteq> LeaseEpoch \<or>
                    BatchRequest.IsLocking ba \<or> \<not> IsAllTransactional ba \<or>
                    (\<exists>txn. Txn ba = Some txn \<and> Transaction.IsLocking txn) \<or>
                    \<not> FollowerReadsEnabled r")
        case True
        from canServe_ineligible [OF True Some] show ?thesis by simp
      next
        case False
        then have gates: "Lease.Type (NotLeaseHolderError.Lease lErr') = LeaseEpoch"
          "\<not> BatchRequest.IsLocking ba" "IsAllTransactional ba"
          "\<forall>txn. Txn ba = Some txn \<longrightarrow> \<not> Transaction.IsLocking txn" "FollowerReadsEnabled r"
          by auto
        from canServe_eligible [OF Some holder gates] desc m a show ?thesis by simp
      qed
    qed
  qed
next
  assume "asNotLeaseHolderError (GetDetail pErr) = Some lErr \<and>
    Lease.Type (NotLeaseHolderError.Lease lErr) = LeaseExpiration"
  then have "Lease.Type (NotLeaseHolderError.Lease lErr) \<noteq> LeaseEpoch \<or>
      BatchRequest.IsLocking ba \<or> \<not> IsAllTransactional ba \<or>
      (\<exists>txn. Txn ba = Some txn \<and> Transaction.IsLocking txn) \<or> \<not> FollowerReadsEnabled r"
    and "asNotLeaseHolderError (GetDetail pErr) = Some lErr"
    by simp_all
  then show "canServeFollowerRead r ba pErr = (Some pErr, r)" by (rule canServe_ineligible)
qed

text \<open>
  The witness: the replica whose current lease is expiration-based, the error with the
  epoch-based lease and the read at 90, above the zero timestamp.
\<close>

theorem expiration_lease_witness:
  "maxClosed expirationReplica = ((zeroTimestamp, False), expirationReplica) \<and>
   fst (canServeFollowerRead expirationReplica (readAt (atWall 90)) scenarioError) =
     Some scenarioError"
proof -
  have exp: "Expiration (Replica.Lease expirationReplica) \<noteq> None"
    by (simp add: scenario_defs)
  have above: "\<not> LessEq (effectiveTimestamp (readAt (atWall 90))) zeroTimestamp"
    by (simp add: scenario_defs LessEq_def)
  have desc: "GetReplicaDescriptor expirationReplica = Inr localDesc"
    by (simp add: scenario_defs)
  from expiration_lease_not_served [of expirationReplica "readAt (atWall 90)" scenarioError]
       exp above desc
  show ?thesis by blast
qed

text \<open>
  C5. For a request that passes every test but the last (its effective timestamp is above
  the timestamp \<^verbatim>\<open>maxClosed\<close> returns), \<^verbatim>\<open>canServeFollowerRead\<close> makes exactly one call
  \<^verbatim>\<open>Clients.Request(lErr.LeaseHolder.NodeID, r.RangeID)\<close> and returns the prior error
  unchanged; the counter is not incremented.
\<close>

theorem refresh_requested_when_above_closed:
  assumes "asNotLeaseHolderError (GetDetail pErr) = Some lErr"
    and "LeaseHolder lErr = Some lh"
    and "Lease.Type (NotLeaseHolderError.Lease lErr) = LeaseEpoch"
    and "\<not> BatchRequest.IsLocking ba" and "IsAllTransactional ba"
    and "\<forall>txn. Txn ba = Some txn \<longrightarrow> \<not> Transaction.IsLocking txn"
    and "FollowerReadsEnabled r"
    and "GetReplicaDescriptor r = Inr repDesc"
    and "GetType repDesc = VOTER_FULL \<or> GetType repDesc = VOTER_INCOMING \<or>
         GetType repDesc = NON_VOTER"
    and "\<not> LessEq (effectiveTimestamp ba) (fst (fst (maxClosed r)))"
  shows "fst (canServeFollowerRead r ba pErr) = Some pErr \<and>
         Requests (snd (canServeFollowerRead r ba pErr)) =
           Requests r @ [(NodeID lh, RangeID r)] \<and>
         FollowerReadsCount (snd (canServeFollowerRead r ba pErr)) = FollowerReadsCount r"
proof -
  have "canServeFollowerRead r ba pErr =
      (Some pErr, (snd (maxClosed r))\<lparr>Requests := Requests r @ [(NodeID lh, RangeID r)]\<rparr>)"
    using canServe_eligible [OF assms(1-7)] assms(8-10) by simp
  then show ?thesis using maxClosed_frame [of r] by simp
qed

text \<open>
  The witness: scenario 6 of the spec, the read at 110 above the closed timestamp 100 of
  range 7, whose leaseholder is on node 2.
\<close>

theorem refresh_requested_witness:
  "fst (canServeFollowerRead scenarioReplica (readAt (atWall 110)) scenarioError) =
     Some scenarioError \<and>
   Requests (snd (canServeFollowerRead scenarioReplica (readAt (atWall 110)) scenarioError)) =
     [(2, 7)] \<and>
   FollowerReadsCount
     (snd (canServeFollowerRead scenarioReplica (readAt (atWall 110)) scenarioError)) = 0"
proof -
  let ?lErr = "\<lparr>LeaseHolder = Some holderDesc, Lease = epochLease (atWall 50)\<rparr>"
  have 1: "asNotLeaseHolderError (GetDetail scenarioError) = Some ?lErr"
    by (simp add: scenarioError_def)
  have 2: "LeaseHolder ?lErr = Some holderDesc" by simp
  have 3: "Lease.Type (NotLeaseHolderError.Lease ?lErr) = LeaseEpoch"
    by (simp add: epochLease_def)
  have 4: "\<not> BatchRequest.IsLocking (readAt (atWall 110))" by (simp add: readAt_def)
  have 5: "IsAllTransactional (readAt (atWall 110))" by (simp add: readAt_def)
  have 6: "\<forall>txn. Txn (readAt (atWall 110)) = Some txn \<longrightarrow> \<not> Transaction.IsLocking txn"
    by (simp add: readAt_def)
  have 7: "FollowerReadsEnabled scenarioReplica"
    by (simp add: scenarioReplica_def replicaWith_def)
  have 8: "GetReplicaDescriptor scenarioReplica = Inr localDesc"
    by (simp add: scenarioReplica_def replicaWith_def)
  have 9: "GetType localDesc = VOTER_FULL \<or> GetType localDesc = VOTER_INCOMING \<or>
      GetType localDesc = NON_VOTER"
    by (simp add: localDesc_def)
  have 10: "\<not> LessEq (effectiveTimestamp (readAt (atWall 110))) (fst (fst (maxClosed scenarioReplica)))"
    by (simp add: scenario_defs eval_defs)
  from refresh_requested_when_above_closed [OF 1 2 3 4 5 6 7 8 9 10] show ?thesis
    by (simp add: scenario_defs)
qed

text \<open>
  C6. For a request that reaches the comparison, the timestamp compared with the maximum
  closed timestamp is the request's timestamp when the request has no transaction, and
  the later of the request's timestamp and the transaction's \<^verbatim>\<open>MaxTimestamp\<close> when it has
  one: the request is served exactly when both are at or below the maximum closed
  timestamp. In particular no request whose transaction's \<^verbatim>\<open>MaxTimestamp\<close> is above the
  maximum closed timestamp is served, wherever its own timestamp lies.
\<close>

theorem effective_timestamp_is_forwarded:
  "(asNotLeaseHolderError (GetDetail pErr) = Some lErr \<and> LeaseHolder lErr = Some lh \<and>
    Lease.Type (NotLeaseHolderError.Lease lErr) = LeaseEpoch \<and>
    \<not> BatchRequest.IsLocking ba \<and> IsAllTransactional ba \<and>
    (\<forall>txn. Txn ba = Some txn \<longrightarrow> \<not> Transaction.IsLocking txn) \<and>
    FollowerReadsEnabled r \<and> GetReplicaDescriptor r = Inr repDesc \<and>
    (GetType repDesc = VOTER_FULL \<or> GetType repDesc = VOTER_INCOMING \<or>
     GetType repDesc = NON_VOTER)
    \<longrightarrow>
    (Txn ba = None \<longrightarrow>
       (fst (canServeFollowerRead r ba pErr) = None \<longleftrightarrow>
        LessEq (BatchRequest.Timestamp ba) (fst (fst (maxClosed r))))) \<and>
    (\<forall>txn. Txn ba = Some txn \<longrightarrow>
       (Forward (BatchRequest.Timestamp ba) (MaxTimestamp txn) = BatchRequest.Timestamp ba \<or>
        Forward (BatchRequest.Timestamp ba) (MaxTimestamp txn) = MaxTimestamp txn) \<and>
       LessEq (BatchRequest.Timestamp ba)
         (Forward (BatchRequest.Timestamp ba) (MaxTimestamp txn)) \<and>
       LessEq (MaxTimestamp txn) (Forward (BatchRequest.Timestamp ba) (MaxTimestamp txn)) \<and>
       (fst (canServeFollowerRead r ba pErr) = None \<longleftrightarrow>
        LessEq (Forward (BatchRequest.Timestamp ba) (MaxTimestamp txn))
          (fst (fst (maxClosed r)))) \<and>
       (fst (canServeFollowerRead r ba pErr) = None \<longleftrightarrow>
        LessEq (BatchRequest.Timestamp ba) (fst (fst (maxClosed r))) \<and>
        LessEq (MaxTimestamp txn) (fst (fst (maxClosed r)))))) \<and>
   (\<forall>txn. Txn ba = Some txn \<and> \<not> LessEq (MaxTimestamp txn) (fst (fst (maxClosed r)))
      \<longrightarrow> fst (canServeFollowerRead r ba pErr) \<noteq> None)"
proof (intro conjI impI allI)
  assume gates: "asNotLeaseHolderError (GetDetail pErr) = Some lErr \<and> LeaseHolder lErr = Some lh \<and>
    Lease.Type (NotLeaseHolderError.Lease lErr) = LeaseEpoch \<and>
    \<not> BatchRequest.IsLocking ba \<and> IsAllTransactional ba \<and>
    (\<forall>txn. Txn ba = Some txn \<longrightarrow> \<not> Transaction.IsLocking txn) \<and>
    FollowerReadsEnabled r \<and> GetReplicaDescriptor r = Inr repDesc \<and>
    (GetType repDesc = VOTER_FULL \<or> GetType repDesc = VOTER_INCOMING \<or>
     GetType repDesc = NON_VOTER)"
  then have served: "fst (canServeFollowerRead r ba pErr) = None \<longleftrightarrow>
      LessEq (effectiveTimestamp ba) (fst (fst (maxClosed r)))"
    using canServe_eligible [of pErr lErr lh ba r] by simp
  {
    assume "Txn ba = None"
    with served show "fst (canServeFollowerRead r ba pErr) = None \<longleftrightarrow>
        LessEq (BatchRequest.Timestamp ba) (fst (fst (maxClosed r)))"
      by simp
  }
  fix txn
  assume txn: "Txn ba = Some txn"
  show "Forward (BatchRequest.Timestamp ba) (MaxTimestamp txn) = BatchRequest.Timestamp ba \<or>
        Forward (BatchRequest.Timestamp ba) (MaxTimestamp txn) = MaxTimestamp txn"
    by (rule Forward_cases)
  show "LessEq (BatchRequest.Timestamp ba)
         (Forward (BatchRequest.Timestamp ba) (MaxTimestamp txn))"
    by (rule Forward_ge1)
  show "LessEq (MaxTimestamp txn) (Forward (BatchRequest.Timestamp ba) (MaxTimestamp txn))"
    by (rule Forward_ge2)
  from served txn
  show fwd: "fst (canServeFollowerRead r ba pErr) = None \<longleftrightarrow>
        LessEq (Forward (BatchRequest.Timestamp ba) (MaxTimestamp txn))
          (fst (fst (maxClosed r)))"
    by simp
  then show "fst (canServeFollowerRead r ba pErr) = None \<longleftrightarrow>
        LessEq (BatchRequest.Timestamp ba) (fst (fst (maxClosed r))) \<and>
        LessEq (MaxTimestamp txn) (fst (fst (maxClosed r)))"
    by (simp add: Forward_le_iff)
next
  fix txn
  assume above: "Txn ba = Some txn \<and> \<not> LessEq (MaxTimestamp txn) (fst (fst (maxClosed r)))"
  show "fst (canServeFollowerRead r ba pErr) \<noteq> None"
  proof
    assume "fst (canServeFollowerRead r ba pErr) = None"
    from canServe_nil_D [OF this] above
    have "LessEq (Forward (BatchRequest.Timestamp ba) (MaxTimestamp txn))
            (fst (fst (maxClosed r)))"
      by auto
    with above show False by (simp add: Forward_le_iff)
  qed
qed

text \<open>
  The witness: scenario 5 with the read at 90 inside a transaction whose uncertainty
  interval ends at 110. The closed timestamp is 100: the request's own timestamp is below
  it, the transaction's \<^verbatim>\<open>MaxTimestamp\<close> is not, and the request is not served.
\<close>

theorem effective_timestamp_witness:
  "LessEq (BatchRequest.Timestamp (txnReadAt (atWall 90) (atWall 110)))
     (fst (fst (maxClosed scenarioReplica))) \<and>
   fst (canServeFollowerRead scenarioReplica (txnReadAt (atWall 90) (atWall 110)) scenarioError)
     \<noteq> None \<and>
   fst (canServeFollowerRead scenarioReplica (txnReadAt (atWall 90) (atWall 95)) scenarioError)
     = None"
proof -
  let ?lErr = "\<lparr>LeaseHolder = Some holderDesc, Lease = epochLease (atWall 50)\<rparr>"
  have below: "LessEq (BatchRequest.Timestamp (txnReadAt (atWall 90) (atWall 110)))
     (fst (fst (maxClosed scenarioReplica)))"
    by (simp add: scenario_defs eval_defs)
  have above: "Txn (txnReadAt (atWall 90) (atWall 110)) =
        Some \<lparr>MaxTimestamp = atWall 110, IsLocking = False\<rparr> \<and>
      \<not> LessEq (MaxTimestamp \<lparr>MaxTimestamp = atWall 110, IsLocking = False\<rparr>)
          (fst (fst (maxClosed scenarioReplica)))"
    by (simp add: scenario_defs eval_defs)
  from effective_timestamp_is_forwarded
         [of scenarioError ?lErr holderDesc "txnReadAt (atWall 90) (atWall 110)"
             scenarioReplica localDesc] above
  have first: "fst (canServeFollowerRead scenarioReplica (txnReadAt (atWall 90) (atWall 110))
      scenarioError) \<noteq> None"
    by blast
  have gates: "asNotLeaseHolderError (GetDetail scenarioError) = Some ?lErr \<and>
      LeaseHolder ?lErr = Some holderDesc \<and>
      Lease.Type (NotLeaseHolderError.Lease ?lErr) = LeaseEpoch \<and>
      \<not> BatchRequest.IsLocking (txnReadAt (atWall 90) (atWall 95)) \<and>
      IsAllTransactional (txnReadAt (atWall 90) (atWall 95)) \<and>
      (\<forall>txn. Txn (txnReadAt (atWall 90) (atWall 95)) = Some txn \<longrightarrow>
         \<not> Transaction.IsLocking txn) \<and>
      FollowerReadsEnabled scenarioReplica \<and>
      GetReplicaDescriptor scenarioReplica = Inr localDesc \<and>
      (GetType localDesc = VOTER_FULL \<or> GetType localDesc = VOTER_INCOMING \<or>
       GetType localDesc = NON_VOTER)"
    by (auto simp add: scenario_defs)
  have both: "Txn (txnReadAt (atWall 90) (atWall 95)) =
        Some \<lparr>MaxTimestamp = atWall 95, IsLocking = False\<rparr> \<and>
      LessEq (BatchRequest.Timestamp (txnReadAt (atWall 90) (atWall 95)))
        (fst (fst (maxClosed scenarioReplica))) \<and>
      LessEq (MaxTimestamp \<lparr>MaxTimestamp = atWall 95, IsLocking = False\<rparr>)
        (fst (fst (maxClosed scenarioReplica)))"
    by (simp add: scenario_defs eval_defs)
  from effective_timestamp_is_forwarded
         [of scenarioError ?lErr holderDesc "txnReadAt (atWall 90) (atWall 95)"
             scenarioReplica localDesc] gates both
  have "fst (canServeFollowerRead scenarioReplica (txnReadAt (atWall 90) (atWall 95))
      scenarioError) = None"
    by blast
  with below first show ?thesis by simp
qed

text \<open>
  C7. If the prior error carries no NotLeaseHolderError, or the error's lease is not
  epoch-based, or the request is locking, or not all-transactional, or its transaction is
  locking, or the setting is disabled, then \<^verbatim>\<open>canServeFollowerRead\<close> returns the prior
  error itself and leaves the replica as it was: no call to the Provider, no increment of
  the counter, no refresh request. The same holds when the local replica's descriptor has
  a type other than VOTER_FULL, VOTER_INCOMING and NON_VOTER.
\<close>

theorem ineligible_returns_prior_error:
  "(asNotLeaseHolderError (GetDetail pErr) = None \<or>
    (\<exists>lErr. asNotLeaseHolderError (GetDetail pErr) = Some lErr \<and>
       Lease.Type (NotLeaseHolderError.Lease lErr) \<noteq> LeaseEpoch) \<or>
    BatchRequest.IsLocking ba \<or> \<not> IsAllTransactional ba \<or>
    (\<exists>txn. Txn ba = Some txn \<and> Transaction.IsLocking txn) \<or>
    \<not> FollowerReadsEnabled r
    \<longrightarrow> canServeFollowerRead r ba pErr = (Some pErr, r)) \<and>
   ((\<exists>repDesc. GetReplicaDescriptor r = Inr repDesc \<and> GetType repDesc \<noteq> VOTER_FULL \<and>
       GetType repDesc \<noteq> VOTER_INCOMING \<and> GetType repDesc \<noteq> NON_VOTER)
    \<longrightarrow> canServeFollowerRead r ba pErr = (Some pErr, r))"
proof (intro conjI impI)
  assume bad: "asNotLeaseHolderError (GetDetail pErr) = None \<or>
    (\<exists>lErr. asNotLeaseHolderError (GetDetail pErr) = Some lErr \<and>
       Lease.Type (NotLeaseHolderError.Lease lErr) \<noteq> LeaseEpoch) \<or>
    BatchRequest.IsLocking ba \<or> \<not> IsAllTransactional ba \<or>
    (\<exists>txn. Txn ba = Some txn \<and> Transaction.IsLocking txn) \<or>
    \<not> FollowerReadsEnabled r"
  show "canServeFollowerRead r ba pErr = (Some pErr, r)"
  proof (cases "asNotLeaseHolderError (GetDetail pErr)")
    case None
    then show ?thesis by (rule canServe_no_detail)
  next
    case (Some lErr)
    with bad have "Lease.Type (NotLeaseHolderError.Lease lErr) \<noteq> LeaseEpoch \<or>
        BatchRequest.IsLocking ba \<or> \<not> IsAllTransactional ba \<or>
        (\<exists>txn. Txn ba = Some txn \<and> Transaction.IsLocking txn) \<or> \<not> FollowerReadsEnabled r"
      by auto
    then show ?thesis using Some by (rule canServe_ineligible)
  qed
next
  assume "\<exists>repDesc. GetReplicaDescriptor r = Inr repDesc \<and> GetType repDesc \<noteq> VOTER_FULL \<and>
       GetType repDesc \<noteq> VOTER_INCOMING \<and> GetType repDesc \<noteq> NON_VOTER"
  then obtain repDesc where desc: "GetReplicaDescriptor r = Inr repDesc"
    and ty: "GetType repDesc \<noteq> VOTER_FULL" "GetType repDesc \<noteq> VOTER_INCOMING"
      "GetType repDesc \<noteq> NON_VOTER"
    by blast
  show "canServeFollowerRead r ba pErr = (Some pErr, r)"
  proof (cases "asNotLeaseHolderError (GetDetail pErr)")
    case None
    then show ?thesis by (rule canServe_no_detail)
  next
    case (Some lErr)
    show ?thesis
    proof (cases "LeaseHolder lErr")
      case None
      with Some show ?thesis by (rule canServe_no_holder)
    next
      case holder: (Some lh)
      show ?thesis
      proof (cases "Lease.Type (NotLeaseHolderError.Lease lErr) \<noteq> LeaseEpoch \<or>
                    BatchRequest.IsLocking ba \<or> \<not> IsAllTransactional ba \<or>
                    (\<exists>txn. Txn ba = Some txn \<and> Transaction.IsLocking txn) \<or>
                    \<not> FollowerReadsEnabled r")
        case True
        then show ?thesis using Some by (rule canServe_ineligible)
      next
        case False
        then have gates: "Lease.Type (NotLeaseHolderError.Lease lErr) = LeaseEpoch"
          "\<not> BatchRequest.IsLocking ba" "IsAllTransactional ba"
          "\<forall>txn. Txn ba = Some txn \<longrightarrow> \<not> Transaction.IsLocking txn" "FollowerReadsEnabled r"
          by auto
        from canServe_eligible [OF Some holder gates] desc ty show ?thesis by simp
      qed
    qed
  qed
qed

text \<open>
  The witness: in scenario 5 the read would be served; the same read as a locking batch,
  and the same read on a LEARNER replica, get the prior error back and change nothing.
\<close>

theorem ineligible_witness:
  "canServeFollowerRead scenarioReplica ((readAt (atWall 90))\<lparr>IsLocking := True\<rparr>) scenarioError =
     (Some scenarioError, scenarioReplica) \<and>
   canServeFollowerRead
     (scenarioReplica\<lparr>GetReplicaDescriptor := Inr (localDesc\<lparr>GetType := LEARNER\<rparr>)\<rparr>)
     (readAt (atWall 90)) scenarioError =
     (Some scenarioError,
      scenarioReplica\<lparr>GetReplicaDescriptor := Inr (localDesc\<lparr>GetType := LEARNER\<rparr>)\<rparr>)"
proof -
  have locking: "BatchRequest.IsLocking ((readAt (atWall 90))\<lparr>IsLocking := True\<rparr>)"
    by (simp add: readAt_def)
  have learner: "\<exists>repDesc.
      GetReplicaDescriptor
        (scenarioReplica\<lparr>GetReplicaDescriptor := Inr (localDesc\<lparr>GetType := LEARNER\<rparr>)\<rparr>) =
        Inr repDesc \<and>
      GetType repDesc \<noteq> VOTER_FULL \<and> GetType repDesc \<noteq> VOTER_INCOMING \<and>
      GetType repDesc \<noteq> NON_VOTER"
    by simp
  from ineligible_returns_prior_error
         [of scenarioError "(readAt (atWall 90))\<lparr>IsLocking := True\<rparr>" scenarioReplica]
       locking
  have first: "canServeFollowerRead scenarioReplica ((readAt (atWall 90))\<lparr>IsLocking := True\<rparr>)
      scenarioError = (Some scenarioError, scenarioReplica)"
    by blast
  from ineligible_returns_prior_error
         [of scenarioError "readAt (atWall 90)"
             "scenarioReplica\<lparr>GetReplicaDescriptor := Inr (localDesc\<lparr>GetType := LEARNER\<rparr>)\<rparr>"]
       learner
  have "canServeFollowerRead
     (scenarioReplica\<lparr>GetReplicaDescriptor := Inr (localDesc\<lparr>GetType := LEARNER\<rparr>)\<rparr>)
     (readAt (atWall 90)) scenarioError =
     (Some scenarioError,
      scenarioReplica\<lparr>GetReplicaDescriptor := Inr (localDesc\<lparr>GetType := LEARNER\<rparr>)\<rparr>)"
    by blast
  with first show ?thesis by simp
qed

text \<open>
  C8. For a request that passes the test of \<^verbatim>\<open>eligible\<close>, if \<^verbatim>\<open>GetReplicaDescriptor\<close> fails
  with \<open>err\<close>, \<^verbatim>\<open>canServeFollowerRead\<close> returns \<^verbatim>\<open>roachpb.NewError(err)\<close>: a new error, which
  is neither nil nor the prior NotLeaseHolderError. Nothing is served: the counter, the
  refresh requests and the Provider calls are as before.
\<close>

theorem descriptor_failure_returns_new_error:
  assumes "asNotLeaseHolderError (GetDetail pErr) = Some lErr"
    and "LeaseHolder lErr = Some lh"
    and "Lease.Type (NotLeaseHolderError.Lease lErr) = LeaseEpoch"
    and "\<not> BatchRequest.IsLocking ba" and "IsAllTransactional ba"
    and "\<forall>txn. Txn ba = Some txn \<longrightarrow> \<not> Transaction.IsLocking txn"
    and "FollowerReadsEnabled r"
    and "GetReplicaDescriptor r = Inl err"
  shows "canServeFollowerRead r ba pErr = (Some (NewError err), r) \<and>
         NewError err \<noteq> pErr \<and> fst (canServeFollowerRead r ba pErr) \<noteq> None"
proof -
  have res: "canServeFollowerRead r ba pErr = (Some (NewError err), r)"
    using canServe_eligible [OF assms(1-7)] assms(8) by simp
  have "asNotLeaseHolderError (GetDetail (NewError err)) = None" by simp
  with assms(1) have "NewError err \<noteq> pErr" by auto
  with res show ?thesis by simp
qed

text \<open>The witness: scenario 5 on a replica that has been removed from the range.\<close>

theorem descriptor_failure_witness:
  "canServeFollowerRead
     (scenarioReplica\<lparr>GetReplicaDescriptor := Inl (GoError ''replica not found'')\<rparr>)
     (readAt (atWall 90)) scenarioError =
     (Some (NewError (GoError ''replica not found'')),
      scenarioReplica\<lparr>GetReplicaDescriptor := Inl (GoError ''replica not found'')\<rparr>) \<and>
   NewError (GoError ''replica not found'') \<noteq> scenarioError"
proof -
  let ?r = "scenarioReplica\<lparr>GetReplicaDescriptor := Inl (GoError ''replica not found'')\<rparr>"
  let ?lErr = "\<lparr>LeaseHolder = Some holderDesc, Lease = epochLease (atWall 50)\<rparr>"
  have 1: "asNotLeaseHolderError (GetDetail scenarioError) = Some ?lErr"
    by (simp add: scenarioError_def)
  have 2: "LeaseHolder ?lErr = Some holderDesc" by simp
  have 3: "Lease.Type (NotLeaseHolderError.Lease ?lErr) = LeaseEpoch"
    by (simp add: epochLease_def)
  have 4: "\<not> BatchRequest.IsLocking (readAt (atWall 90))" by (simp add: readAt_def)
  have 5: "IsAllTransactional (readAt (atWall 90))" by (simp add: readAt_def)
  have 6: "\<forall>txn. Txn (readAt (atWall 90)) = Some txn \<longrightarrow> \<not> Transaction.IsLocking txn"
    by (simp add: readAt_def)
  have 7: "FollowerReadsEnabled ?r" by (simp add: scenarioReplica_def replicaWith_def)
  have 8: "GetReplicaDescriptor ?r = Inl (GoError ''replica not found'')" by simp
  from descriptor_failure_returns_new_error [OF 1 2 3 4 5 6 7 8] show ?thesis by simp
qed

text \<open>
  C9. If the \<^verbatim>\<open>LeaseHolder\<close> field of the NotLeaseHolderError is nil,
  \<^verbatim>\<open>canServeFollowerRead\<close> returns the prior error unchanged and has no effect, whatever
  the other eligibility conditions are.
\<close>

theorem nil_LeaseHolder_returns_prior_error:
  assumes "asNotLeaseHolderError (GetDetail pErr) = Some lErr"
    and "LeaseHolder lErr = None"
  shows "canServeFollowerRead r ba pErr = (Some pErr, r)"
  using assms by (rule canServe_no_holder)

text \<open>
  The witness: scenario 5 of the spec (every other condition holds, the read at 90 is
  below the closed timestamp 100), with no leaseholder in the error.
\<close>

theorem nil_LeaseHolder_witness:
  "fst (canServeFollowerRead scenarioReplica (readAt (atWall 90)) scenarioError) = None \<and>
   canServeFollowerRead scenarioReplica (readAt (atWall 90)) noHolderError =
     (Some noHolderError, scenarioReplica)"
proof -
  have detail: "asNotLeaseHolderError (GetDetail noHolderError) =
      Some \<lparr>LeaseHolder = None, Lease = epochLease (atWall 50)\<rparr>"
    by (simp add: noHolderError_def)
  have served: "fst (canServeFollowerRead scenarioReplica (readAt (atWall 90)) scenarioError) = None"
    by (simp add: scenario_defs eval_defs)
  from nil_LeaseHolder_returns_prior_error [OF detail] served show ?thesis by simp
qed

text \<open>
  C10, as stated, fails for a timestamp with a negative component. The fields of a
  timestamp are signed, the comparison with the zero timestamp is \<^verbatim>\<open>ts.LessEq\<close>, and a
  read whose wall time is -1 is served although its timestamp is not the zero timestamp.
\<close>

theorem ok_discarded_counterexample:
  "Lease.Type (epochLease (atWall 50)) = LeaseEpoch \<and>
   Expiration (Replica.Lease expirationReplica) = Some (atWall 500) \<and>
   Txn (readAt (atWall (- 1))) = None \<and>
   BatchRequest.Timestamp (readAt (atWall (- 1))) \<noteq> zeroTimestamp \<and>
   fst (canServeFollowerRead expirationReplica (readAt (atWall (- 1))) scenarioError) = None"
  by (simp add: scenario_defs eval_defs)

text \<open>
  C10, amended. \<^verbatim>\<open>canServeFollowerRead\<close> discards the \<^verbatim>\<open>ok\<close> of \<^verbatim>\<open>maxClosed\<close>: when the
  NotLeaseHolderError carries an epoch-based lease, the replica's current lease is
  expiration-based and the request passes the other tests, the effective timestamp is
  compared with the zero timestamp. The request is served if and only if its effective
  timestamp is at or below the zero timestamp, which for a timestamp without a negative
  component means that it is the zero timestamp; a request with an effective timestamp
  above the zero timestamp gets the prior error back, after one refresh request.
\<close>

theorem ok_discarded_compares_with_zero:
  assumes "asNotLeaseHolderError (GetDetail pErr) = Some lErr"
    and "LeaseHolder lErr = Some lh"
    and "Lease.Type (NotLeaseHolderError.Lease lErr) = LeaseEpoch"
    and "\<not> BatchRequest.IsLocking ba" and "IsAllTransactional ba"
    and "\<forall>txn. Txn ba = Some txn \<longrightarrow> \<not> Transaction.IsLocking txn"
    and "FollowerReadsEnabled r"
    and "GetReplicaDescriptor r = Inr repDesc"
    and "GetType repDesc = VOTER_FULL \<or> GetType repDesc = VOTER_INCOMING \<or>
         GetType repDesc = NON_VOTER"
    and "Expiration (Replica.Lease r) \<noteq> None"
  shows
  "(fst (canServeFollowerRead r ba pErr) = None \<longleftrightarrow>
      LessEq (effectiveTimestamp ba) zeroTimestamp) \<and>
   (0 \<le> sint (WallTime (effectiveTimestamp ba)) \<and> 0 \<le> sint (Logical (effectiveTimestamp ba))
      \<longrightarrow> (fst (canServeFollowerRead r ba pErr) = None \<longleftrightarrow>
            effectiveTimestamp ba = zeroTimestamp)) \<and>
   (\<not> LessEq (effectiveTimestamp ba) zeroTimestamp
      \<longrightarrow> canServeFollowerRead r ba pErr =
            (Some pErr, r\<lparr>Requests := Requests r @ [(NodeID lh, RangeID r)]\<rparr>))"
proof -
  have m: "maxClosed r = ((zeroTimestamp, False), r)"
    using assms(10) by (rule maxClosed_expiration)
  have eq: "canServeFollowerRead r ba pErr =
      (if LessEq (effectiveTimestamp ba) zeroTimestamp
       then (None, r\<lparr>FollowerReadsCount := FollowerReadsCount r + 1\<rparr>)
       else (Some pErr, r\<lparr>Requests := Requests r @ [(NodeID lh, RangeID r)]\<rparr>))"
    using canServe_eligible [OF assms(1-7)] assms(8,9) m by simp
  have served: "fst (canServeFollowerRead r ba pErr) = None \<longleftrightarrow>
      LessEq (effectiveTimestamp ba) zeroTimestamp"
    by (simp add: eq)
  moreover have "fst (canServeFollowerRead r ba pErr) = None \<longleftrightarrow>
      effectiveTimestamp ba = zeroTimestamp"
    if "0 \<le> sint (WallTime (effectiveTimestamp ba)) \<and> 0 \<le> sint (Logical (effectiveTimestamp ba))"
    using that served LessEq_zero_iff [of "effectiveTimestamp ba"] by simp
  moreover have "canServeFollowerRead r ba pErr =
      (Some pErr, r\<lparr>Requests := Requests r @ [(NodeID lh, RangeID r)]\<rparr>)"
    if "\<not> LessEq (effectiveTimestamp ba) zeroTimestamp"
    using that by (simp add: eq)
  ultimately show ?thesis by blast
qed

text \<open>
  The witness: on the replica whose current lease is expiration-based, the read at the
  zero timestamp is served and the read at 90 gets the prior error back.
\<close>

theorem ok_discarded_witness:
  "fst (canServeFollowerRead expirationReplica (readAt zeroTimestamp) scenarioError) = None \<and>
   fst (canServeFollowerRead expirationReplica (readAt (atWall 90)) scenarioError) =
     Some scenarioError"
proof -
  let ?lErr = "\<lparr>LeaseHolder = Some holderDesc, Lease = epochLease (atWall 50)\<rparr>"
  have 1: "asNotLeaseHolderError (GetDetail scenarioError) = Some ?lErr"
    by (simp add: scenarioError_def)
  have 2: "LeaseHolder ?lErr = Some holderDesc" by simp
  have 3: "Lease.Type (NotLeaseHolderError.Lease ?lErr) = LeaseEpoch"
    by (simp add: epochLease_def)
  have 4: "\<not> BatchRequest.IsLocking (readAt t)" for t by (simp add: readAt_def)
  have 5: "IsAllTransactional (readAt t)" for t by (simp add: readAt_def)
  have 6: "\<forall>txn. Txn (readAt t) = Some txn \<longrightarrow> \<not> Transaction.IsLocking txn" for t
    by (simp add: readAt_def)
  have 7: "FollowerReadsEnabled expirationReplica" by (simp add: scenario_defs)
  have 8: "GetReplicaDescriptor expirationReplica = Inr localDesc" by (simp add: scenario_defs)
  have 9: "GetType localDesc = VOTER_FULL \<or> GetType localDesc = VOTER_INCOMING \<or>
      GetType localDesc = NON_VOTER"
    by (simp add: localDesc_def)
  have 10: "Expiration (Replica.Lease expirationReplica) \<noteq> None" by (simp add: scenario_defs)
  have zero: "LessEq (effectiveTimestamp (readAt zeroTimestamp)) zeroTimestamp"
    by (simp add: readAt_def LessEq_refl)
  have above: "\<not> LessEq (effectiveTimestamp (readAt (atWall 90))) zeroTimestamp"
    by (simp add: scenario_defs LessEq_def)
  from ok_discarded_compares_with_zero [OF 1 2 3 4 5 6 7 8 9 10, of zeroTimestamp] zero
  have a: "fst (canServeFollowerRead expirationReplica (readAt zeroTimestamp) scenarioError) = None"
    by blast
  from ok_discarded_compares_with_zero [OF 1 2 3 4 5 6 7 8 9 10, of "atWall 90"] above
  have "fst (canServeFollowerRead expirationReplica (readAt (atWall 90)) scenarioError) =
      Some scenarioError"
    by simp
  with a show ?thesis by simp
qed

end
